theory Spec2Isabelle
  imports Main
begin

section \<open>Data model\<close>

text \<open>
  The enums of \<^verbatim>\<open>src/models/schemas.py\<close>. Both are \<^verbatim>\<open>str\<close> enums; \<open>channel_value\<close>
  is \<^verbatim>\<open>.value\<close> and \<open>DeliveryChannel_of\<close> is the constructor call
  \<^verbatim>\<open>DeliveryChannel(ch)\<close>, which raises \<^verbatim>\<open>ValueError\<close> (here \<open>None\<close>) on an unknown tag.
  A Python \<^verbatim>\<open>str\<close> is a \<open>string\<close> with one \<open>char\<close> per code point, so the
  model covers strings over code points below 256, where \<open>length\<close> is Python's \<^verbatim>\<open>len\<close>.
\<close>

datatype DeliveryChannel = EMAIL | SMS | TELEGRAM

datatype NotificationStatus = PENDING | SENT | FAILED

fun channel_value :: "DeliveryChannel \<Rightarrow> string" where
  "channel_value EMAIL = ''email''"
| "channel_value SMS = ''sms''"
| "channel_value TELEGRAM = ''telegram''"

definition DeliveryChannel_of :: "string \<Rightarrow> DeliveryChannel option" where
  "DeliveryChannel_of s =
     (if s = ''email'' then Some EMAIL
      else if s = ''sms'' then Some SMS
      else if s = ''telegram'' then Some TELEGRAM
      else None)"

type_synonym uuid = nat

text \<open>
  The rows of \<^verbatim>\<open>src/models/orm.py\<close>. The primary key column \<^verbatim>\<open>id\<close> is \<open>id_pk\<close>
  (\<open>id\<close> is HOL's identity function). The columns \<^verbatim>\<open>status\<close>, \<^verbatim>\<open>channel_used\<close> and
  \<^verbatim>\<open>channel\<close> hold the enum's \<^verbatim>\<open>.value\<close>; the rows carry the enum member itself.
  \<^verbatim>\<open>updated_at\<close> is written by the ORM's \<^verbatim>\<open>onupdate\<close> hook and by no line of the
  service, and is left out. The autoincrement key of an attempt is its position in
  the table. Instants are natural numbers.
\<close>

record NotificationORM =
  id_pk :: uuid
  recipient :: string
  message :: string
  status :: NotificationStatus
  channel_used :: "DeliveryChannel option"
  metadata :: "(string \<times> string) list"
  created_at :: nat

record NotificationAttempt =
  notification_id :: uuid
  channel :: DeliveryChannel
  timestamp :: nat
  success :: bool
  error_message :: "string option"

text \<open>
  The JSON object that \<^verbatim>\<open>_enqueue_retry\<close> and \<^verbatim>\<open>retry_notification\<close> put under the key
  \<^verbatim>\<open>payload\<close> of a stream entry: the notification id, the channel tags and the attempt
  counter. \<^verbatim>\<open>json.dumps\<close> and \<^verbatim>\<open>json.loads\<close> are not modelled: an entry is the object.
\<close>

record retry_payload =
  payload_notification_id :: uuid
  payload_channels :: "string list"
  payload_attempt :: int

text \<open>The validated request model \<^verbatim>\<open>NotificationCreate\<close>.\<close>

record NotificationCreate =
  data_recipient :: string
  data_message :: string
  data_channels :: "DeliveryChannel list"
  data_metadata :: "(string \<times> string) list"


section \<open>The service and the world it acts on\<close>

text \<open>
  \<^verbatim>\<open>provider.send(recipient, message)\<close> returns or raises. A provider is a function of
  the number of provider calls made so far, the recipient and the message, giving
  \<open>None\<close> when \<^verbatim>\<open>send\<close> returns and \<open>Some e\<close> when it raises an exception whose
  \<^verbatim>\<open>str\<close> is \<open>e\<close>.
\<close>

type_synonym provider = "nat \<Rightarrow> string \<Rightarrow> string \<Rightarrow> string option"

datatype error = RedisError string

text \<open>
  What a \<^verbatim>\<open>NotificationService\<close> and the worker read from outside themselves:
  \<^item> \<open>providers\<close>: the dictionary \<^verbatim>\<open>self.providers\<close>;
  \<^item> \<open>max_retry_attempts\<close>: \<^verbatim>\<open>settings.max_retry_attempts\<close>;
  \<^item> \<open>xadd_error\<close>: whether the \<open>k\<close>-th call of \<^verbatim>\<open>redis.xadd\<close> raises, and with what;
  \<^item> \<open>utcnow\<close>: the value of the \<open>k\<close>-th reading of \<^verbatim>\<open>datetime.utcnow()\<close>;
  \<^item> \<open>backoff_raises\<close>: whether \<^verbatim>\<open>settings.retry_backoff_base ** (attempt - 1)\<close>, a
    floating-point power, raises for this attempt number;
  \<^item> \<open>xack_raises\<close>: whether \<^verbatim>\<open>redis.xack\<close> raises for this message id.
  Failures of the database itself (a commit or a query that raises) are not modelled,
  and neither are the log calls and the backoff sleep.
\<close>

record service =
  providers :: "DeliveryChannel \<rightharpoonup> provider"
  max_retry_attempts :: int
  xadd_error :: "nat \<Rightarrow> string option"
  utcnow :: "nat \<Rightarrow> nat"
  backoff_raises :: "int \<Rightarrow> bool"
  xack_raises :: "nat \<Rightarrow> bool"

text \<open>The dictionary built by \<^verbatim>\<open>NotificationService.__init__\<close>: one provider per channel.\<close>

definition init_providers :: "provider \<Rightarrow> provider \<Rightarrow> provider \<Rightarrow> (DeliveryChannel \<rightharpoonup> provider)" where
  "init_providers email_provider sms_provider telegram_provider =
     [EMAIL \<mapsto> email_provider, SMS \<mapsto> sms_provider, TELEGRAM \<mapsto> telegram_provider]"

text \<open>
  The state outside the service: the two tables in insertion order, the retry stream,
  the acknowledged message ids, the log of provider calls (channel, recipient,
  message), and the counters of \<^verbatim>\<open>xadd\<close> calls and clock readings.
\<close>

record world =
  notifications :: "NotificationORM list"
  notification_attempts :: "NotificationAttempt list"
  stream :: "retry_payload list"
  acked :: "nat list"
  sends :: "(DeliveryChannel \<times> string \<times> string) list"
  xadd_calls :: nat
  clock_reads :: nat

definition empty_world :: world where
  "empty_world = \<lparr>notifications = [], notification_attempts = [], stream = [], acked = [],
     sends = [], xadd_calls = 0, clock_reads = 0\<rparr>"

text \<open>
  A commit after the service assigned \<^verbatim>\<open>status\<close> or \<^verbatim>\<open>channel_used\<close> of the object
  \<open>n\<close>: an \<^verbatim>\<open>UPDATE\<close> of these columns on the rows with the object's primary key.
\<close>

definition commit_notification :: "NotificationORM \<Rightarrow> world \<Rightarrow> world" where
  "commit_notification n w =
     w\<lparr>notifications :=
         map (\<lambda>r. if id_pk r = id_pk n
                   then r\<lparr>status := status n, channel_used := channel_used n\<rparr> else r)
             (notifications w)\<rparr>"

text \<open>\<^verbatim>\<open>self.db.add(attempt)\<close> followed by the commit: the row is appended.\<close>

definition add_attempt :: "NotificationAttempt \<Rightarrow> world \<Rightarrow> world" where
  "add_attempt a w = w\<lparr>notification_attempts := notification_attempts w @ [a]\<rparr>"

definition read_utcnow :: "service \<Rightarrow> world \<Rightarrow> nat \<times> world" where
  "read_utcnow svc w = (utcnow svc (clock_reads w), w\<lparr>clock_reads := Suc (clock_reads w)\<rparr>)"

text \<open>\<^verbatim>\<open>self.redis.xadd(settings.redis_stream_name, {"payload": ...})\<close>.\<close>

definition xadd :: "service \<Rightarrow> retry_payload \<Rightarrow> world \<Rightarrow> (error + unit) \<times> world" where
  "xadd svc p w =
     (case xadd_error svc (xadd_calls w) of
        Some e \<Rightarrow> (Inl (RedisError e), w\<lparr>xadd_calls := Suc (xadd_calls w)\<rparr>)
      | None \<Rightarrow> (Inr (), w\<lparr>xadd_calls := Suc (xadd_calls w), stream := stream w @ [p]\<rparr>))"

section \<open>\<^verbatim>\<open>NotificationService\<close>\<close>

text \<open>
  The \<^verbatim>\<open>for channel in channels\<close> loop of \<^verbatim>\<open>_attempt_delivery\<close>. The boolean of the
  result is \<open>True\<close> when the loop left through \<^verbatim>\<open>return\<close> (a channel succeeded) and
  \<open>False\<close> when it ran to its end; the notification is the object as mutated.
\<close>

fun delivery_loop ::
  "service \<Rightarrow> NotificationORM \<Rightarrow> DeliveryChannel list \<Rightarrow> world \<Rightarrow> (bool \<times> NotificationORM) \<times> world" where
  "delivery_loop svc n [] w = ((False, n), w)"
| "delivery_loop svc n (c # cs) w =
     (case providers svc c of
        None \<Rightarrow> delivery_loop svc n cs w
      | Some send \<Rightarrow>
          (let w1 = w\<lparr>sends := sends w @ [(c, recipient n, message n)]\<rparr> in
           case send (length (sends w)) (recipient n) (message n) of
             None \<Rightarrow>
               (let (t, w2) = read_utcnow svc w1;
                    w3 = add_attempt \<lparr>notification_id = id_pk n, channel = c, timestamp = t,
                                      success = True, error_message = None\<rparr> w2;
                    n' = n\<lparr>status := SENT, channel_used := Some c\<rparr>
                in ((True, n'), commit_notification n' w3))
           | Some e \<Rightarrow>
               (let (t, w2) = read_utcnow svc w1;
                    w3 = add_attempt \<lparr>notification_id = id_pk n, channel = c, timestamp = t,
                                      success = False, error_message = Some e\<rparr> w2
                in delivery_loop svc n cs w3)))"

definition enqueue_retry :: "service \<Rightarrow> uuid \<Rightarrow> DeliveryChannel list \<Rightarrow> world \<Rightarrow> (error + unit) \<times> world" where
  "enqueue_retry svc nid channels w =
     xadd svc \<lparr>payload_notification_id = nid, payload_channels = map channel_value channels,
               payload_attempt = 1\<rparr> w"

text \<open>
  \<^verbatim>\<open>_attempt_delivery\<close>: the loop, and after a loop that ran to its end the status
  \<^verbatim>\<open>failed\<close>, its commit and \<^verbatim>\<open>_enqueue_retry\<close>. The Python returns nothing and
  mutates the object; the model returns the object.
\<close>

definition attempt_delivery ::
  "service \<Rightarrow> NotificationORM \<Rightarrow> DeliveryChannel list \<Rightarrow> world \<Rightarrow> (error + NotificationORM) \<times> world" where
  "attempt_delivery svc n channels w =
     (case delivery_loop svc n channels w of
        ((True, n'), w') \<Rightarrow> (Inr n', w')
      | ((False, n'), w') \<Rightarrow>
          (let n'' = n'\<lparr>status := FAILED\<rparr>;
               w'' = commit_notification n'' w'
           in case enqueue_retry svc (id_pk n'') channels w'' of
                (Inl e, w3) \<Rightarrow> (Inl e, w3)
              | (Inr u, w3) \<Rightarrow> (Inr n'', w3)))"

text \<open>
  \<^verbatim>\<open>create_and_send\<close>. \<open>new_id\<close> is the value that \<^verbatim>\<open>uuid.uuid4\<close> draws for the row.
\<close>

definition create_and_send ::
  "service \<Rightarrow> NotificationCreate \<Rightarrow> uuid \<Rightarrow> world \<Rightarrow> (error + NotificationORM) \<times> world" where
  "create_and_send svc notification_data new_id w =
     (let (t, w1) = read_utcnow svc w;
          notification = \<lparr>id_pk = new_id, recipient = data_recipient notification_data,
                          message = data_message notification_data, status = PENDING,
                          channel_used = None, metadata = data_metadata notification_data,
                          created_at = t\<rparr>;
          w2 = w1\<lparr>notifications := notifications w1 @ [notification]\<rparr>
      in attempt_delivery svc notification (data_channels notification_data) w2)"

text \<open>\<^verbatim>\<open>get_notification\<close>: the row with this key, and its attempts through the relationship.\<close>

definition get_notification :: "world \<Rightarrow> uuid \<Rightarrow> NotificationORM option" where
  "get_notification w nid = find (\<lambda>n. id_pk n = nid) (notifications w)"


definition retry_notification ::
  "service \<Rightarrow> uuid \<Rightarrow> DeliveryChannel list \<Rightarrow> int \<Rightarrow> world \<Rightarrow> (error + unit) \<times> world" where
  "retry_notification svc nid channels attempt w =
     (case get_notification w nid of
        None \<Rightarrow> (Inr (), w)
      | Some notification \<Rightarrow>
          if status notification = SENT then (Inr (), w)
          else
            (let n1 = notification\<lparr>status := PENDING\<rparr>;
                 w1 = commit_notification n1 w
             in case attempt_delivery svc n1 channels w1 of
                  (Inl e, w2) \<Rightarrow> (Inl e, w2)
                | (Inr n2, w2) \<Rightarrow>
                    if status n2 = FAILED \<and> attempt < max_retry_attempts svc
                    then xadd svc \<lparr>payload_notification_id = nid,
                                   payload_channels = map channel_value channels,
                                   payload_attempt = attempt + 1\<rparr> w2
                    else (Inr (), w2)))"

section \<open>The retry worker\<close>

text \<open>
  \<^verbatim>\<open>process_retry_message\<close> of \<^verbatim>\<open>src/services/retry.py\<close>, on a decoded entry. Every
  exception inside is caught and logged, and then the message is not acknowledged;
  what was committed before the exception stays.
\<close>

definition process_retry_message :: "service \<Rightarrow> nat \<Rightarrow> retry_payload \<Rightarrow> world \<Rightarrow> world" where
  "process_retry_message svc message_id payload w =
     (case those (map DeliveryChannel_of (payload_channels payload)) of
        None \<Rightarrow> w
      | Some channels \<Rightarrow>
          if backoff_raises svc (payload_attempt payload) then w
          else
            (case retry_notification svc (payload_notification_id payload) channels
                    (payload_attempt payload) w of
               (Inl e, w') \<Rightarrow> w'
             | (Inr u, w') \<Rightarrow>
                 if xack_raises svc message_id then w'
                 else w'\<lparr>acked := acked w' @ [message_id]\<rparr>))"

section \<open>The HTTP adapter\<close>



section \<open>Outcomes of a round\<close>

text \<open>
  The results of the \<^verbatim>\<open>send\<close> calls that a round over \<open>cs\<close> makes when no call
  succeeds, the first of them being provider call number \<open>k\<close>: one entry per channel
  with a registered provider, in list order. The loop stops at the first \<open>None\<close> of
  this list.
\<close>

fun outcomes :: "service \<Rightarrow> string \<Rightarrow> string \<Rightarrow> DeliveryChannel list \<Rightarrow> nat \<Rightarrow> string option list" where
  "outcomes svc r m [] k = []"
| "outcomes svc r m (c # cs) k =
     (case providers svc c of
        None \<Rightarrow> outcomes svc r m cs k
      | Some send \<Rightarrow> send k r m # outcomes svc r m cs (Suc k))"

text \<open>The number of calls that fail before the first one that succeeds.\<close>

definition failures :: "string option list \<Rightarrow> nat" where
  "failures os = length (takeWhile (\<lambda>out. out \<noteq> None) os)"

text \<open>The columns of a notification that no round is to change.\<close>

definition immutable_fields ::
  "NotificationORM \<Rightarrow> uuid \<times> string \<times> string \<times> (string \<times> string) list \<times> nat" where
  "immutable_fields r = (id_pk r, recipient r, message r, metadata r, created_at r)"

section \<open>Reachable worlds and their invariant\<close>




section \<open>Example services and data\<close>

definition always_fails :: provider where
  "always_fails k r m = Some ''down''"

definition always_ok :: provider where
  "always_ok k r m = None"

definition failing_service :: service where
  "failing_service =
     \<lparr>providers = init_providers always_fails always_fails always_fails,
      max_retry_attempts = 3, xadd_error = (\<lambda>k. None), utcnow = (\<lambda>k. k),
      backoff_raises = (\<lambda>a. False), xack_raises = (\<lambda>m. False)\<rparr>"

definition mock_service :: service where
  "mock_service = failing_service\<lparr>providers := init_providers always_ok always_ok always_ok\<rparr>"

text \<open>Email and telegram down, sms delivering.\<close>

definition fallback_service :: service where
  "fallback_service = failing_service\<lparr>providers := init_providers always_fails always_ok always_fails\<rparr>"

definition queue_down_service :: service where
  "queue_down_service = failing_service\<lparr>xadd_error := (\<lambda>k. Some ''connection refused'')\<rparr>"

definition no_email_service :: service where
  "no_email_service = failing_service\<lparr>providers := [SMS \<mapsto> always_ok]\<rparr>"

definition example_data :: NotificationCreate where
  "example_data = \<lparr>data_recipient = ''a@b.c'', data_message = ''hi'',
     data_channels = [EMAIL, SMS], data_metadata = []\<rparr>"

definition example_row :: NotificationORM where
  "example_row = \<lparr>id_pk = 7, recipient = ''a@b.c'', message = ''hi'', status = PENDING,
     channel_used = None, metadata = [], created_at = 0\<rparr>"

text \<open>The world after one request on which both channels failed, and a record of its stream.\<close>

definition failed_world :: world where
  "failed_world = snd (create_and_send failing_service example_data 7 empty_world)"

definition retry_record :: "int \<Rightarrow> retry_payload" where
  "retry_record k = \<lparr>payload_notification_id = 7, payload_channels = [''email'', ''sms''],
     payload_attempt = k\<rparr>"




definition sent_world :: world where
  "sent_world = snd (create_and_send mock_service example_data 7 empty_world)"

section \<open>Lemmas on the loop and the round\<close>

lemmas service_defs =
  init_providers_def create_and_send_def retry_notification_def process_retry_message_def
  attempt_delivery_def enqueue_retry_def xadd_def read_utcnow_def add_attempt_def
  commit_notification_def get_notification_def DeliveryChannel_of_def Let_def

lemmas example_defs =
  always_fails_def always_ok_def failing_service_def mock_service_def queue_down_service_def
  no_email_service_def example_data_def example_row_def failed_world_def retry_record_def
  empty_world_def

text \<open>The loop writes neither to the stream nor to the acknowledgements.\<close>

lemma loop_frame:
  "stream (snd (delivery_loop svc n cs w)) = stream w \<and>
   xadd_calls (snd (delivery_loop svc n cs w)) = xadd_calls w \<and>
   acked (snd (delivery_loop svc n cs w)) = acked w"
  by (induction cs arbitrary: w)
     (simp_all add: Let_def read_utcnow_def add_attempt_def commit_notification_def
        split: option.splits)

text \<open>When no call succeeds the loop runs to its end and leaves the notification rows alone.\<close>

lemma loop_all_fail:
  "None \<notin> set (outcomes svc (recipient n) (message n) cs (length (sends w))) \<Longrightarrow>
   fst (delivery_loop svc n cs w) = (False, n) \<and>
   notifications (snd (delivery_loop svc n cs w)) = notifications w"
  by (induction cs arbitrary: w)
     (auto simp: Let_def read_utcnow_def add_attempt_def split: option.splits)

text \<open>What \<^verbatim>\<open>_attempt_delivery\<close> does after the loop, by the way the loop ended.\<close>

lemma attempt_delivery_failed:
  assumes "delivery_loop svc n cs w = ((False, n'), w')"
  shows "attempt_delivery svc n cs w =
    (case xadd_error svc (xadd_calls w') of
       Some e \<Rightarrow> (Inl (RedisError e),
          (commit_notification (n'\<lparr>status := FAILED\<rparr>) w')\<lparr>xadd_calls := Suc (xadd_calls w')\<rparr>)
     | None \<Rightarrow> (Inr (n'\<lparr>status := FAILED\<rparr>),
          (commit_notification (n'\<lparr>status := FAILED\<rparr>) w')
            \<lparr>xadd_calls := Suc (xadd_calls w'),
             stream := stream w' @ [\<lparr>payload_notification_id = id_pk n',
               payload_channels = map channel_value cs, payload_attempt = 1\<rparr>]\<rparr>))"
  by (simp add: attempt_delivery_def assms enqueue_retry_def xadd_def commit_notification_def
      Let_def split: option.splits)

lemma attempt_delivery_sent:
  assumes "delivery_loop svc n cs w = ((True, n'), w')"
  shows "attempt_delivery svc n cs w = (Inr n', w')"
  by (simp add: attempt_delivery_def assms)

lemma attempt_delivery_attempts:
  "notification_attempts (snd (attempt_delivery svc n cs w)) =
     notification_attempts (snd (delivery_loop svc n cs w)) \<and>
   sends (snd (attempt_delivery svc n cs w)) = sends (snd (delivery_loop svc n cs w))"
  by (simp add: attempt_delivery_def enqueue_retry_def xadd_def commit_notification_def Let_def
      split: prod.splits bool.splits option.splits)

lemma skip_unregistered:
  "providers svc c = None \<Longrightarrow>
   delivery_loop svc n (pre @ c # post) w = delivery_loop svc n (pre @ post) w"
  by (induction pre arbitrary: w) (simp_all add: Let_def split: option.splits prod.splits)

text \<open>The object the loop returns: untouched, or marked sent on one of the channels.\<close>

lemma loop_result_object:
  "fst (delivery_loop svc n cs w) = (False, n) \<or>
   (\<exists>c. c \<in> set cs \<and>
        fst (delivery_loop svc n cs w) = (True, n\<lparr>status := SENT, channel_used := Some c\<rparr>))"
  by (induction cs arbitrary: w)
     (auto simp: Let_def read_utcnow_def add_attempt_def split: option.splits)





text \<open>The two early returns of \<^verbatim>\<open>retry_notification\<close>, and the worker around them.\<close>

lemma retry_dropped:
  assumes "get_notification w nid = None \<or>
     (\<exists>n. get_notification w nid = Some n \<and> status n = SENT)"
  shows "retry_notification svc nid channels attempt w = (Inr (), w)"
  using assms by (auto simp: retry_notification_def)

lemma process_dropped:
  assumes "get_notification w (payload_notification_id p) = None \<or>
     (\<exists>n. get_notification w (payload_notification_id p) = Some n \<and> status n = SENT)"
  shows "(process_retry_message svc mid p w)\<lparr>acked := acked w\<rparr> = w"
  by (simp add: process_retry_message_def retry_dropped [OF assms] split: option.splits)

text \<open>
  The round over channels that all have a provider, one projection at a time: what is
  appended to the attempts, the provider calls made, the object returned and the table.
\<close>

lemma init_providers_total: "init_providers pe ps pt c \<noteq> None"
  by (cases c) (simp_all add: init_providers_def)

lemma outcomes_length:
  assumes reg: "\<And>c. providers svc c \<noteq> None"
  shows "length (outcomes svc r m cs k) = length cs"
  by (induction cs arbitrary: k) (auto simp: reg split: option.splits)

lemma failures_le: "failures os \<le> length os"
  by (simp add: failures_def length_takeWhile_le)

lemma loop_keeps_attempts:
  "take (length (notification_attempts w)) (notification_attempts (snd (delivery_loop svc n cs w))) =
     notification_attempts w"
proof (induction cs arbitrary: w)
  case Nil
  show ?case by simp
next
  case (Cons c cs)
  show ?case
  proof (cases "providers svc c")
    case None
    then show ?thesis using Cons.IH [of w] by simp
  next
    case (Some send)
    show ?thesis
    proof (cases "send (length (sends w)) (recipient n) (message n)")
      case None
      then show ?thesis
        using Some by (simp add: Let_def read_utcnow_def add_attempt_def commit_notification_def)
    next
      case (Some e)
      define w3 where "w3 = add_attempt \<lparr>notification_id = id_pk n, channel = c,
          timestamp = utcnow svc (clock_reads w), success = False, error_message = Some e\<rparr>
          (w\<lparr>sends := sends w @ [(c, recipient n, message n)], clock_reads := Suc (clock_reads w)\<rparr>)"
      have l: "delivery_loop svc n (c # cs) w = delivery_loop svc n cs w3"
        using Some \<open>providers svc c = Some send\<close>
        by (simp add: Let_def read_utcnow_def w3_def)
      have a: "notification_attempts w3 = notification_attempts w @
          [\<lparr>notification_id = id_pk n, channel = c,
          timestamp = utcnow svc (clock_reads w), success = False, error_message = Some e\<rparr>]"
        by (simp add: w3_def add_attempt_def)
      have "take (length (notification_attempts w))
              (take (length (notification_attempts w3)) (notification_attempts (snd (delivery_loop svc n cs w3))))
            = take (length (notification_attempts w)) (notification_attempts w3)"
        by (simp only: Cons.IH [of w3])
      then show ?thesis
        unfolding l by (simp add: a)
    qed
  qed
qed

lemma loop_channels:
  assumes reg: "\<And>c. providers svc c \<noteq> None"
  shows "map channel (notification_attempts (snd (delivery_loop svc n cs w))) =
     map channel (notification_attempts w) @
     take (Suc (failures (outcomes svc (recipient n) (message n) cs (length (sends w))))) cs"
  by (induction cs arbitrary: w)
     (auto simp: reg failures_def Let_def read_utcnow_def add_attempt_def commit_notification_def
        split: option.splits)

lemma loop_errors:
  assumes reg: "\<And>c. providers svc c \<noteq> None"
  shows "map error_message (notification_attempts (snd (delivery_loop svc n cs w))) =
     map error_message (notification_attempts w) @
     take (Suc (failures (outcomes svc (recipient n) (message n) cs (length (sends w)))))
       (outcomes svc (recipient n) (message n) cs (length (sends w)))"
  by (induction cs arbitrary: w)
     (auto simp: reg failures_def Let_def read_utcnow_def add_attempt_def commit_notification_def
        split: option.splits)

lemma loop_success:
  assumes reg: "\<And>c. providers svc c \<noteq> None"
  shows "map success (notification_attempts (snd (delivery_loop svc n cs w))) =
     map success (notification_attempts w) @
     replicate (failures (outcomes svc (recipient n) (message n) cs (length (sends w)))) False @
     (if failures (outcomes svc (recipient n) (message n) cs (length (sends w))) < length cs
      then [True] else [])"
  by (induction cs arbitrary: w)
     (auto simp: reg failures_def Let_def read_utcnow_def add_attempt_def commit_notification_def
        split: option.splits)

lemma loop_ids:
  assumes reg: "\<And>c. providers svc c \<noteq> None"
  shows "map notification_id (notification_attempts (snd (delivery_loop svc n cs w))) =
     map notification_id (notification_attempts w) @
     replicate (min (Suc (failures (outcomes svc (recipient n) (message n) cs (length (sends w)))))
                  (length cs)) (id_pk n)"
  by (induction cs arbitrary: w)
     (auto simp: reg failures_def Let_def read_utcnow_def add_attempt_def commit_notification_def
        split: option.splits)

lemma loop_sends:
  assumes reg: "\<And>c. providers svc c \<noteq> None"
  shows "sends (snd (delivery_loop svc n cs w)) =
     sends w @ map (\<lambda>c. (c, recipient n, message n))
       (take (Suc (failures (outcomes svc (recipient n) (message n) cs (length (sends w))))) cs)"
  by (induction cs arbitrary: w)
     (auto simp: reg failures_def Let_def read_utcnow_def add_attempt_def commit_notification_def
        split: option.splits)

lemma loop_result:
  assumes reg: "\<And>c. providers svc c \<noteq> None"
  shows "fst (delivery_loop svc n cs w) =
     (if failures (outcomes svc (recipient n) (message n) cs (length (sends w))) < length cs
      then (True, n\<lparr>status := SENT, channel_used :=
              Some (cs ! failures (outcomes svc (recipient n) (message n) cs (length (sends w))))\<rparr>)
      else (False, n)) \<and>
   notifications (snd (delivery_loop svc n cs w)) =
     (if failures (outcomes svc (recipient n) (message n) cs (length (sends w))) < length cs
      then notifications (commit_notification (n\<lparr>status := SENT, channel_used :=
              Some (cs ! failures (outcomes svc (recipient n) (message n) cs (length (sends w))))\<rparr>) w)
      else notifications w)"
  by (induction cs arbitrary: w)
     (auto simp: reg failures_def Let_def read_utcnow_def add_attempt_def commit_notification_def
        split: option.splits)

text \<open>
  Frame of a commit, of the loop, of a round and of a retry: the immutable columns of
  every row, the rows of other notifications, and the attempts recorded before.
\<close>

lemma commit_frame:
  "map immutable_fields (notifications (commit_notification n w)) =
     map immutable_fields (notifications w) \<and>
   filter (\<lambda>r. id_pk r \<noteq> id_pk n) (notifications (commit_notification n w)) =
     filter (\<lambda>r. id_pk r \<noteq> id_pk n) (notifications w)"
proof -
  have "map immutable_fields (map (\<lambda>r. if id_pk r = k then r\<lparr>status := s, channel_used := c\<rparr> else r) xs) =
          map immutable_fields xs \<and>
        filter (\<lambda>r. id_pk r \<noteq> k) (map (\<lambda>r. if id_pk r = k then r\<lparr>status := s, channel_used := c\<rparr> else r) xs) =
          filter (\<lambda>r. id_pk r \<noteq> k) xs" for k s c and xs :: "NotificationORM list"
    by (induction xs) (simp_all add: immutable_fields_def)
  then show ?thesis
    by (simp add: commit_notification_def)
qed

lemma loop_tables:
  "map immutable_fields (notifications (snd (delivery_loop svc n cs w))) =
     map immutable_fields (notifications w) \<and>
   filter (\<lambda>r. id_pk r \<noteq> id_pk n) (notifications (snd (delivery_loop svc n cs w))) =
     filter (\<lambda>r. id_pk r \<noteq> id_pk n) (notifications w)"
proof (induction cs arbitrary: w)
  case Nil
  show ?case by simp
next
  case (Cons c cs)
  show ?case
  proof (cases "providers svc c")
    case None
    then show ?thesis using Cons.IH [of w] by simp
  next
    case (Some send)
    note p = this
    show ?thesis
    proof (cases "send (length (sends w)) (recipient n) (message n)")
      case None
      have "notifications (snd (delivery_loop svc n (c # cs) w)) =
          notifications (commit_notification (n\<lparr>status := SENT, channel_used := Some c\<rparr>) w)"
        using None p by (simp add: Let_def read_utcnow_def add_attempt_def commit_notification_def)
      then show ?thesis
        using commit_frame [of "n\<lparr>status := SENT, channel_used := Some c\<rparr>" w] by simp
    next
      case (Some e)
      define w3 where "w3 = add_attempt \<lparr>notification_id = id_pk n, channel = c,
          timestamp = utcnow svc (clock_reads w), success = False, error_message = Some e\<rparr>
          (w\<lparr>sends := sends w @ [(c, recipient n, message n)], clock_reads := Suc (clock_reads w)\<rparr>)"
      have l: "delivery_loop svc n (c # cs) w = delivery_loop svc n cs w3"
        using Some p by (simp add: Let_def read_utcnow_def w3_def)
      have "notifications w3 = notifications w"
        by (simp add: w3_def add_attempt_def)
      then show ?thesis
        unfolding l using Cons.IH [of w3] by simp
    qed
  qed
qed

lemma attempt_delivery_tables:
  "map immutable_fields (notifications (snd (attempt_delivery svc n cs w))) =
     map immutable_fields (notifications w) \<and>
   filter (\<lambda>r. id_pk r \<noteq> id_pk n) (notifications (snd (attempt_delivery svc n cs w))) =
     filter (\<lambda>r. id_pk r \<noteq> id_pk n) (notifications w)"
proof -
  obtain b n' w' where l: "delivery_loop svc n cs w = ((b, n'), w')"
    by (metis prod.collapse)
  have t: "map immutable_fields (notifications w') = map immutable_fields (notifications w)"
      "filter (\<lambda>r. id_pk r \<noteq> id_pk n) (notifications w') =
       filter (\<lambda>r. id_pk r \<noteq> id_pk n) (notifications w)"
    using loop_tables [of svc n cs w] l by simp_all
  from loop_result_object [of svc n cs w] l have i: "id_pk n' = id_pk n"
    by auto
  show ?thesis
  proof (cases b)
    case True
    then show ?thesis using l t by (simp add: attempt_delivery_def)
  next
    case False
    have "notifications (snd (attempt_delivery svc n cs w)) =
        notifications (commit_notification (n'\<lparr>status := FAILED\<rparr>) w')"
      using l False
      by (simp add: attempt_delivery_def enqueue_retry_def xadd_def Let_def commit_notification_def
          split: option.splits)
    then show ?thesis
      using commit_frame [of "n'\<lparr>status := FAILED\<rparr>" w'] t i by simp
  qed
qed

lemma attempt_delivery_object:
  "case fst (attempt_delivery svc n cs w) of
     Inl e \<Rightarrow> True
   | Inr n' \<Rightarrow> immutable_fields n' = immutable_fields n"
proof -
  obtain b n' w' where l: "delivery_loop svc n cs w = ((b, n'), w')"
    by (metis prod.collapse)
  from loop_result_object [of svc n cs w] l have i: "immutable_fields n' = immutable_fields n"
    by (auto simp: immutable_fields_def)
  show ?thesis
    using l i
    by (cases b)
       (simp_all add: attempt_delivery_def enqueue_retry_def xadd_def Let_def immutable_fields_def
          split: option.splits)
qed

lemma attempt_delivery_keeps_attempts:
  "take (length (notification_attempts w)) (notification_attempts (snd (attempt_delivery svc n cs w))) =
     notification_attempts w"
  by (simp add: attempt_delivery_attempts loop_keeps_attempts)

lemma find_id: "find (\<lambda>r. id_pk r = k) xs = Some r \<Longrightarrow> id_pk r = k"
  by (induction xs) (auto split: if_splits)

lemma retry_tables:
  "map immutable_fields (notifications (snd (retry_notification svc nid cs k w))) =
     map immutable_fields (notifications w) \<and>
   filter (\<lambda>r. id_pk r \<noteq> nid) (notifications (snd (retry_notification svc nid cs k w))) =
     filter (\<lambda>r. id_pk r \<noteq> nid) (notifications w) \<and>
   take (length (notification_attempts w))
     (notification_attempts (snd (retry_notification svc nid cs k w))) = notification_attempts w"
proof (cases "get_notification w nid")
  case None
  then show ?thesis by (simp add: retry_notification_def)
next
  case (Some n)
  then have "find (\<lambda>r. id_pk r = nid) (notifications w) = Some n"
    by (simp add: get_notification_def)
  then have i: "id_pk n = nid"
    by (rule find_id)
  show ?thesis
  proof (cases "status n = SENT")
    case True
    then show ?thesis using Some by (simp add: retry_notification_def)
  next
    case False
    define n1 where "n1 = n\<lparr>status := PENDING\<rparr>"
    define w1 where "w1 = commit_notification n1 w"
    have i1: "id_pk n1 = nid" by (simp add: n1_def i)
    obtain r w2 where a: "attempt_delivery svc n1 cs w1 = (r, w2)"
      by (metis prod.collapse)
    have t1: "map immutable_fields (notifications w1) = map immutable_fields (notifications w)"
        "filter (\<lambda>r. id_pk r \<noteq> nid) (notifications w1) = filter (\<lambda>r. id_pk r \<noteq> nid) (notifications w)"
        "notification_attempts w1 = notification_attempts w"
      using commit_frame [of n1 w] i1 by (simp_all add: w1_def) (simp add: commit_notification_def)
    have t2: "map immutable_fields (notifications w2) = map immutable_fields (notifications w)"
        "filter (\<lambda>r. id_pk r \<noteq> nid) (notifications w2) = filter (\<lambda>r. id_pk r \<noteq> nid) (notifications w)"
        "take (length (notification_attempts w)) (notification_attempts w2) = notification_attempts w"
      using attempt_delivery_tables [of svc n1 cs w1] attempt_delivery_keeps_attempts [where w=w1 and svc=svc and n=n1 and cs=cs]
        a t1 i1 by simp_all
    have r: "retry_notification svc nid cs k w =
        (case attempt_delivery svc n1 cs w1 of
           (Inl e, w2) \<Rightarrow> (Inl e, w2)
         | (Inr n2, w2) \<Rightarrow>
             if status n2 = FAILED \<and> k < max_retry_attempts svc
             then xadd svc \<lparr>payload_notification_id = nid,
                    payload_channels = map channel_value cs, payload_attempt = k + 1\<rparr> w2
             else (Inr (), w2))"
      using Some False unfolding retry_notification_def n1_def w1_def by (simp add: Let_def)
    have "notifications (snd (retry_notification svc nid cs k w)) = notifications w2 \<and>
        notification_attempts (snd (retry_notification svc nid cs k w)) = notification_attempts w2"
      unfolding r a by (cases r) (simp_all add: xadd_def split: option.splits)
    then show ?thesis using t2 by simp
  qed
qed













text \<open>
  The loop leaves through \<^verbatim>\<open>return\<close> exactly when one of its calls succeeds; the outcomes
  pass over a channel without a provider; and what a round does to the stream.
\<close>

lemma loop_success_iff:
  "fst (fst (delivery_loop svc n cs w)) =
     (None \<in> set (outcomes svc (recipient n) (message n) cs (length (sends w))))"
  by (induction cs arbitrary: w)
     (auto simp: Let_def read_utcnow_def add_attempt_def split: option.splits)

lemma outcomes_skip:
  "providers svc c = None \<Longrightarrow>
   outcomes svc r m (pre @ c # post) k = outcomes svc r m (pre @ post) k"
  by (induction pre arbitrary: k) (simp_all split: option.splits)

lemma round_stream:
  "stream (snd (attempt_delivery svc n cs w)) =
     (if None \<in> set (outcomes svc (recipient n) (message n) cs (length (sends w))) then stream w
      else case xadd_error svc (xadd_calls w) of
             None \<Rightarrow> stream w @ [\<lparr>payload_notification_id = id_pk n,
                          payload_channels = map channel_value cs, payload_attempt = 1\<rparr>]
           | Some e \<Rightarrow> stream w)"
proof -
  obtain b n' w' where l: "delivery_loop svc n cs w = ((b, n'), w')"
    by (metis prod.collapse)
  have fr: "stream w' = stream w" "xadd_calls w' = xadd_calls w"
    using loop_frame [of svc n cs w] l by simp_all
  have b: "b = (None \<in> set (outcomes svc (recipient n) (message n) cs (length (sends w))))"
    using loop_success_iff [of svc n cs w] l by simp
  show ?thesis
  proof (cases b)
    case True
    then have "delivery_loop svc n cs w = ((True, n'), w')" using l by simp
    from attempt_delivery_sent [OF this] show ?thesis
      using True b fr by simp
  next
    case False
    with loop_result_object [of svc n cs w] l have "n' = n" by auto
    then have "delivery_loop svc n cs w = ((False, n), w')" using l False by simp
    from attempt_delivery_failed [OF this] show ?thesis
      using False b fr by (simp add: commit_notification_def split: option.splits)
  qed
qed

section \<open>The claims\<close>

text \<open>
  C1 (the attempt counter of the enqueued records of one notification is strictly
  increasing). The code does otherwise: \<^verbatim>\<open>retry_notification\<close> runs the round through
  \<^verbatim>\<open>_attempt_delivery\<close>, which on total failure calls \<^verbatim>\<open>_enqueue_retry\<close> and so appends a
  record with attempt 1 again, before the record with \<open>attempt + 1\<close>. With both
  providers failing, the request enqueues attempt 1, and processing that record
  enqueues attempt 1 and then attempt 2, all for notification 7.
\<close>

theorem retry_reenqueues_attempt_one:
  "map payload_attempt
     (stream (process_retry_message failing_service 0 (retry_record 1) failed_world)) = [1, 1, 2] \<and>
   map payload_notification_id
     (stream (process_retry_message failing_service 0 (retry_record 1) failed_world)) = [7, 7, 7]"
  by (simp add: service_defs example_defs)

text \<open>
  C2 (a retry processed with attempt equal to \<^verbatim>\<open>max_retry_attempts\<close> that fails again
  enqueues nothing). The code does otherwise, by the same call of \<^verbatim>\<open>_enqueue_retry\<close>
  inside the retry round: with the cap at 3, processing a record with attempt 3 on which
  both providers fail appends a record with attempt 1 to the stream.
\<close>

theorem retry_at_cap_enqueues:
  "max_retry_attempts failing_service = 3 \<and>
   stream (process_retry_message failing_service 0 (retry_record 3) failed_world) =
     stream failed_world @ [retry_record 1]"
  by (simp add: service_defs example_defs)

text \<open>
  C4, as the code has it: a channel with no registered provider is skipped. The loop
  over a list that contains such a channel is the loop over the list without it, so no
  attempt is recorded for the channel and no provider is called for it, and the cascade
  goes on with the next channel. The skip enqueues nothing and does not change whether
  the round enqueues: the round returns the same result, leaves the same rows and a
  stream of the same length as the round over the list without the channel. It appends
  a retry record exactly when no call to a registered provider of the list succeeds and
  the queue takes the record, and the record carries the tags of the whole list, the
  skipped channel included.
\<close>

theorem missing_provider_skipped:
  assumes "providers svc c = None"
  shows "delivery_loop svc n (pre @ c # post) w = delivery_loop svc n (pre @ post) w \<and>
    notification_attempts (snd (attempt_delivery svc n (pre @ c # post) w)) =
      notification_attempts (snd (attempt_delivery svc n (pre @ post) w)) \<and>
    sends (snd (attempt_delivery svc n (pre @ c # post) w)) =
      sends (snd (attempt_delivery svc n (pre @ post) w)) \<and>
    fst (attempt_delivery svc n (pre @ c # post) w) = fst (attempt_delivery svc n (pre @ post) w) \<and>
    notifications (snd (attempt_delivery svc n (pre @ c # post) w)) =
      notifications (snd (attempt_delivery svc n (pre @ post) w)) \<and>
    length (stream (snd (attempt_delivery svc n (pre @ c # post) w))) =
      length (stream (snd (attempt_delivery svc n (pre @ post) w))) \<and>
    stream (snd (attempt_delivery svc n (pre @ c # post) w)) =
      (if None \<in> set (outcomes svc (recipient n) (message n) (pre @ post) (length (sends w)))
       then stream w
       else case xadd_error svc (xadd_calls w) of
              None \<Rightarrow> stream w @ [\<lparr>payload_notification_id = id_pk n,
                           payload_channels = map channel_value (pre @ c # post),
                           payload_attempt = 1\<rparr>]
            | Some e \<Rightarrow> stream w)"
proof -
  have sk: "delivery_loop svc n (pre @ c # post) w = delivery_loop svc n (pre @ post) w"
    by (rule skip_unregistered [OF assms])
  have os: "outcomes svc (recipient n) (message n) (pre @ c # post) (length (sends w)) =
      outcomes svc (recipient n) (message n) (pre @ post) (length (sends w))"
    by (rule outcomes_skip [OF assms])
  have st: "stream (snd (attempt_delivery svc n (pre @ c # post) w)) =
      (if None \<in> set (outcomes svc (recipient n) (message n) (pre @ post) (length (sends w)))
       then stream w
       else case xadd_error svc (xadd_calls w) of
              None \<Rightarrow> stream w @ [\<lparr>payload_notification_id = id_pk n,
                           payload_channels = map channel_value (pre @ c # post),
                           payload_attempt = 1\<rparr>]
            | Some e \<Rightarrow> stream w)"
    using round_stream [of svc n "pre @ c # post" w] unfolding os .
  have len: "length (stream (snd (attempt_delivery svc n (pre @ c # post) w))) =
      length (stream (snd (attempt_delivery svc n (pre @ post) w)))"
    unfolding st round_stream [of svc n "pre @ post" w] by (simp split: option.splits)
  have res: "fst (attempt_delivery svc n (pre @ c # post) w) = fst (attempt_delivery svc n (pre @ post) w)"
    and tab: "notifications (snd (attempt_delivery svc n (pre @ c # post) w)) =
      notifications (snd (attempt_delivery svc n (pre @ post) w))"
    unfolding attempt_delivery_def sk
    by (simp_all add: enqueue_retry_def xadd_def Let_def commit_notification_def
        split: prod.splits bool.splits option.splits)
  show ?thesis
    using sk st len res tab by (simp add: attempt_delivery_attempts)
qed

theorem missing_provider_skipped_witness:
  "providers no_email_service EMAIL = None \<and>
   delivery_loop no_email_service example_row ([] @ EMAIL # [SMS]) empty_world =
     delivery_loop no_email_service example_row ([] @ [SMS]) empty_world \<and>
   map channel (notification_attempts
     (snd (attempt_delivery no_email_service example_row ([] @ [SMS]) empty_world))) = [SMS] \<and>
   stream (snd (attempt_delivery no_email_service example_row ([] @ EMAIL # [SMS]) empty_world)) = [] \<and>
   stream (snd (attempt_delivery no_email_service example_row ([] @ EMAIL # []) empty_world)) =
     [\<lparr>payload_notification_id = 7, payload_channels = [''email''], payload_attempt = 1\<rparr>] \<and>
   stream (snd (attempt_delivery no_email_service example_row ([] @ []) empty_world)) =
     [\<lparr>payload_notification_id = 7, payload_channels = [], payload_attempt = 1\<rparr>]"
  using missing_provider_skipped [of no_email_service EMAIL example_row "[]" "[SMS]" empty_world]
    missing_provider_skipped [of no_email_service EMAIL example_row "[]" "[]" empty_world]
  by (simp add: service_defs example_defs)

text \<open>
  C4 as stated fails: with no provider registered for email, the round over email and
  sms records the one attempt on sms, and none for email.
\<close>

theorem missing_provider_no_attempt:
  "providers no_email_service EMAIL = None \<and>
   notification_attempts
     (snd (attempt_delivery no_email_service example_row [EMAIL, SMS] empty_world)) =
   [\<lparr>notification_id = 7, channel = SMS, timestamp = 0, success = True, error_message = None\<rparr>]"
  by (simp add: service_defs example_defs)

text \<open>
  C6, as the code has it: \<^verbatim>\<open>_enqueue_retry\<close> has no handler around \<^verbatim>\<open>xadd\<close>, and neither
  have its callers on the request path. When every call of the round fails and the
  \<^verbatim>\<open>xadd\<close> that follows raises, \<^verbatim>\<open>create_and_send\<close> raises that error; the row is in the
  table with status \<^verbatim>\<open>failed\<close>, and the stream is as it was.
\<close>

theorem enqueue_failure_propagates:
  assumes "None \<notin> set (outcomes svc (data_recipient d) (data_message d) (data_channels d)
                           (length (sends w)))"
    and "xadd_error svc (xadd_calls w) = Some e"
  shows "fst (create_and_send svc d new_id w) = Inl (RedisError e) \<and>
     stream (snd (create_and_send svc d new_id w)) = stream w \<and>
     \<lparr>id_pk = new_id, recipient = data_recipient d, message = data_message d, status = FAILED,
       channel_used = None, metadata = data_metadata d, created_at = utcnow svc (clock_reads w)\<rparr>
       \<in> set (notifications (snd (create_and_send svc d new_id w)))"
proof -
  define n where "n = \<lparr>id_pk = new_id, recipient = data_recipient d, message = data_message d,
     status = PENDING, channel_used = None, metadata = data_metadata d,
     created_at = utcnow svc (clock_reads w)\<rparr>"
  define w2 where
    "w2 = w\<lparr>clock_reads := Suc (clock_reads w), notifications := notifications w @ [n]\<rparr>"
  have cs: "create_and_send svc d new_id w = attempt_delivery svc n (data_channels d) w2"
    by (simp add: create_and_send_def read_utcnow_def n_def w2_def Let_def)
  have o: "None \<notin> set (outcomes svc (recipient n) (message n) (data_channels d) (length (sends w2)))"
    using assms(1) by (simp add: n_def w2_def)
  obtain w' where l: "delivery_loop svc n (data_channels d) w2 = ((False, n), w')"
    using loop_all_fail [OF o] by (metis prod.collapse)
  have nw: "notifications w' = notifications w2"
    using loop_all_fail [OF o] l by simp
  have fw: "stream w' = stream w" "xadd_calls w' = xadd_calls w"
    using loop_frame [of svc n "data_channels d" w2] l by (simp_all add: w2_def)
  have r: "create_and_send svc d new_id w =
      (Inl (RedisError e),
       (commit_notification (n\<lparr>status := FAILED\<rparr>) w')\<lparr>xadd_calls := Suc (xadd_calls w')\<rparr>)"
    using assms(2) by (simp add: cs attempt_delivery_failed [OF l] fw)
  show ?thesis
    by (simp add: r fw nw commit_notification_def w2_def) (simp add: n_def)
qed

theorem enqueue_failure_propagates_witness:
  "None \<notin> set (outcomes queue_down_service (data_recipient example_data)
       (data_message example_data) (data_channels example_data) (length (sends empty_world))) \<and>
   xadd_error queue_down_service (xadd_calls empty_world) = Some ''connection refused'' \<and>
   fst (create_and_send queue_down_service example_data 7 empty_world) =
     Inl (RedisError ''connection refused'') \<and>
   stream (snd (create_and_send queue_down_service example_data 7 empty_world)) = []"
  using enqueue_failure_propagates [of queue_down_service example_data empty_world
      "''connection refused''" 7]
  by (simp add: example_defs init_providers_def)

text \<open>
  C6 as stated fails: both channels fail, the queue refuses the record, and the caller
  gets the error and no notification.
\<close>

theorem enqueue_failure_raised:
  "map success (notification_attempts
     (snd (create_and_send queue_down_service example_data 7 empty_world))) = [False, False] \<and>
   fst (create_and_send queue_down_service example_data 7 empty_world) =
     Inl (RedisError ''connection refused'')"
  by (simp add: service_defs example_defs)

text \<open>
  C9: on the empty channel list, with a queue that takes the record, the round records
  no attempt, sets and commits the status \<^verbatim>\<open>failed\<close>, and enqueues a record with attempt 1
  and the empty channel list.
\<close>

theorem empty_channel_list:
  assumes "xadd_error svc (xadd_calls w) = None"
  shows "attempt_delivery svc n [] w =
    (Inr (n\<lparr>status := FAILED\<rparr>),
     (commit_notification (n\<lparr>status := FAILED\<rparr>) w)
       \<lparr>xadd_calls := Suc (xadd_calls w),
        stream := stream w @ [\<lparr>payload_notification_id = id_pk n, payload_channels = [],
                                payload_attempt = 1\<rparr>]\<rparr>) \<and>
    notification_attempts (snd (attempt_delivery svc n [] w)) = notification_attempts w \<and>
    sends (snd (attempt_delivery svc n [] w)) = sends w"
  using assms
  by (simp add: attempt_delivery_def enqueue_retry_def xadd_def commit_notification_def Let_def)

theorem empty_channel_list_witness:
  "xadd_error failing_service (xadd_calls failed_world) = None \<and>
   status (the (get_notification (snd (attempt_delivery failing_service example_row [] failed_world)) 7))
     = FAILED \<and>
   stream (snd (attempt_delivery failing_service example_row [] failed_world)) =
     [retry_record 1,
      \<lparr>payload_notification_id = 7, payload_channels = [], payload_attempt = 1\<rparr>] \<and>
   length (notification_attempts (snd (attempt_delivery failing_service example_row [] failed_world)))
     = 2"
  using empty_channel_list [of failing_service failed_world example_row]
  by (simp add: service_defs example_defs)

text \<open>
  C5: a retry record whose notification is absent from the table or already has status
  \<^verbatim>\<open>sent\<close> is dropped. \<^verbatim>\<open>retry_notification\<close> returns with the world as it was: no
  provider call, no attempt, no change of a notification, no new record. Processing the
  message changes nothing but the acknowledgements, and so does processing it a second
  time: the notification's status after two processings is its status after one.
\<close>

theorem retry_of_absent_or_sent_dropped:
  assumes "get_notification w (payload_notification_id p) = None \<or>
     (\<exists>n. get_notification w (payload_notification_id p) = Some n \<and> status n = SENT)"
  shows "retry_notification svc (payload_notification_id p) channels attempt w = (Inr (), w) \<and>
    (process_retry_message svc mid p w)\<lparr>acked := acked w\<rparr> = w \<and>
    (process_retry_message svc mid' p (process_retry_message svc mid p w))\<lparr>acked := acked w\<rparr> = w"
proof -
  let ?w1 = "process_retry_message svc mid p w"
  have 1: "?w1\<lparr>acked := acked w\<rparr> = w" by (rule process_dropped [OF assms])
  have "notifications (?w1\<lparr>acked := acked w\<rparr>) = notifications w" by (simp only: 1)
  then have g: "get_notification ?w1 = get_notification w"
    by (simp add: get_notification_def fun_eq_iff)
  have 2: "(process_retry_message svc mid' p ?w1)\<lparr>acked := acked ?w1\<rparr> = ?w1"
    by (rule process_dropped) (use assms g in simp)
  have "(process_retry_message svc mid' p ?w1)\<lparr>acked := acked w\<rparr> =
        ((process_retry_message svc mid' p ?w1)\<lparr>acked := acked ?w1\<rparr>)\<lparr>acked := acked w\<rparr>"
    by simp
  also have "\<dots> = w" by (simp only: 2 1)
  finally show ?thesis
    using 1 retry_dropped [OF assms] by simp
qed

theorem retry_of_absent_or_sent_dropped_witness:
  "map_option status (get_notification sent_world (payload_notification_id (retry_record 1))) = Some SENT \<and>
   retry_notification failing_service (payload_notification_id (retry_record 1)) [EMAIL, SMS] 1 sent_world
     = (Inr (), sent_world) \<and>
   process_retry_message failing_service 0 (retry_record 1) sent_world = sent_world\<lparr>acked := [0]\<rparr> \<and>
   (process_retry_message failing_service 1 (retry_record 1)
      (process_retry_message failing_service 0 (retry_record 1) sent_world))\<lparr>acked := acked sent_world\<rparr>
     = sent_world"
  using retry_of_absent_or_sent_dropped [of sent_world "retry_record 1" failing_service "[EMAIL, SMS]" 1 0 1]
  by (simp add: sent_world_def service_defs example_defs)




text \<open>
  C3: the cascade of a service whose providers are those of \<^verbatim>\<open>__init__\<close>. Let \<open>os\<close> be
  the outcomes of the calls over the list and \<open>k\<close> the number of failures before the
  first success. The attempts recorded before the round stay; the round appends
  attempts for the first \<open>k + 1\<close> channels of the list, in list order, for this
  notification: \<open>k\<close> failures carrying the providers' error texts and, when \<open>k\<close> is
  short of the list, one success, which is last. Providers are called for these channels
  and no others. When a channel succeeds the notification is returned and committed as
  \<^verbatim>\<open>sent\<close> with that channel in \<^verbatim>\<open>channel_used\<close>, and the stream is untouched; when all fail
  and the queue takes the record, it is returned and committed as \<^verbatim>\<open>failed\<close>, and one
  record with attempt 1 and the tags of the whole list is appended to the stream.
\<close>

theorem cascade_round:
  assumes "providers svc = init_providers email_provider sms_provider telegram_provider"
  shows "let os = outcomes svc (recipient n) (message n) cs (length (sends w));
             k = failures os;
             w' = snd (attempt_delivery svc n cs w)
         in length os = length cs \<and>
            take (length (notification_attempts w)) (notification_attempts w') =
              notification_attempts w \<and>
            map channel (notification_attempts w') =
              map channel (notification_attempts w) @ take (Suc k) cs \<and>
            map success (notification_attempts w') =
              map success (notification_attempts w) @ replicate k False @
              (if k < length cs then [True] else []) \<and>
            map error_message (notification_attempts w') =
              map error_message (notification_attempts w) @ take (Suc k) os \<and>
            map notification_id (notification_attempts w') =
              map notification_id (notification_attempts w) @
              replicate (min (Suc k) (length cs)) (id_pk n) \<and>
            sends w' = sends w @ map (\<lambda>c. (c, recipient n, message n)) (take (Suc k) cs) \<and>
            (k < length cs \<longrightarrow>
               fst (attempt_delivery svc n cs w) =
                 Inr (n\<lparr>status := SENT, channel_used := Some (cs ! k)\<rparr>) \<and>
               notifications w' =
                 notifications (commit_notification
                   (n\<lparr>status := SENT, channel_used := Some (cs ! k)\<rparr>) w) \<and>
               stream w' = stream w) \<and>
            (k = length cs \<and> xadd_error svc (xadd_calls w) = None \<longrightarrow>
               fst (attempt_delivery svc n cs w) = Inr (n\<lparr>status := FAILED\<rparr>) \<and>
               notifications w' = notifications (commit_notification (n\<lparr>status := FAILED\<rparr>) w) \<and>
               stream w' = stream w @
                 [\<lparr>payload_notification_id = id_pk n, payload_channels = map channel_value cs,
                   payload_attempt = 1\<rparr>])"
proof -
  have reg: "\<And>c. providers svc c \<noteq> None"
    by (simp add: assms init_providers_total)
  define os where "os = outcomes svc (recipient n) (message n) cs (length (sends w))"
  define k where "k = failures os"
  define w' where "w' = snd (attempt_delivery svc n cs w)"
  obtain b n1 w1 where l: "delivery_loop svc n cs w = ((b, n1), w1)"
    by (metis prod.collapse)
  have fr: "stream w1 = stream w" "xadd_calls w1 = xadd_calls w"
    using loop_frame [of svc n cs w] l by simp_all
  have res: "(b, n1) = (if k < length cs
        then (True, n\<lparr>status := SENT, channel_used := Some (cs ! k)\<rparr>) else (False, n))"
    and tab: "notifications w1 = (if k < length cs
        then notifications (commit_notification (n\<lparr>status := SENT, channel_used := Some (cs ! k)\<rparr>) w)
        else notifications w)"
    using loop_result [OF reg, of n cs w] l by (simp_all add: k_def os_def)
  have 1: "length os = length cs"
    by (simp add: os_def outcomes_length [OF reg])
  have att: "notification_attempts w' = notification_attempts (snd (delivery_loop svc n cs w))"
    and snd: "sends w' = sends (snd (delivery_loop svc n cs w))"
    by (simp_all add: w'_def attempt_delivery_attempts)
  have 2: "take (length (notification_attempts w)) (notification_attempts w') = notification_attempts w"
    by (simp add: att loop_keeps_attempts)
  have 3: "map channel (notification_attempts w') =
      map channel (notification_attempts w) @ take (Suc k) cs"
    by (simp add: att loop_channels [OF reg] k_def os_def)
  have 4: "map success (notification_attempts w') =
      map success (notification_attempts w) @ replicate k False @
      (if k < length cs then [True] else [])"
    by (simp add: att loop_success [OF reg] k_def os_def)
  have 5: "map error_message (notification_attempts w') =
      map error_message (notification_attempts w) @ take (Suc k) os"
    by (simp add: att loop_errors [OF reg] k_def os_def)
  have 6: "map notification_id (notification_attempts w') =
      map notification_id (notification_attempts w) @
      replicate (min (Suc k) (length cs)) (id_pk n)"
    by (simp add: att loop_ids [OF reg] k_def os_def)
  have 7: "sends w' = sends w @ map (\<lambda>c. (c, recipient n, message n)) (take (Suc k) cs)"
    by (simp add: snd loop_sends [OF reg] k_def os_def)
  have 8: "fst (attempt_delivery svc n cs w) =
             Inr (n\<lparr>status := SENT, channel_used := Some (cs ! k)\<rparr>) \<and>
           notifications w' =
             notifications (commit_notification
               (n\<lparr>status := SENT, channel_used := Some (cs ! k)\<rparr>) w) \<and>
           stream w' = stream w" if "k < length cs"
  proof -
    have "delivery_loop svc n cs w = ((True, n\<lparr>status := SENT, channel_used := Some (cs ! k)\<rparr>), w1)"
      using res l that by simp
    from attempt_delivery_sent [OF this] show ?thesis
      using tab fr that by (simp add: w'_def)
  qed
  have 9: "fst (attempt_delivery svc n cs w) = Inr (n\<lparr>status := FAILED\<rparr>) \<and>
           notifications w' = notifications (commit_notification (n\<lparr>status := FAILED\<rparr>) w) \<and>
           stream w' = stream w @
             [\<lparr>payload_notification_id = id_pk n, payload_channels = map channel_value cs,
               payload_attempt = 1\<rparr>]"
    if "k = length cs" "xadd_error svc (xadd_calls w) = None"
  proof -
    have "delivery_loop svc n cs w = ((False, n), w1)"
      using res l that by simp
    from attempt_delivery_failed [OF this] show ?thesis
      using tab fr that by (simp add: w'_def commit_notification_def)
  qed
  show ?thesis
    unfolding Let_def os_def [symmetric] k_def [symmetric] w'_def [symmetric]
    using 1 2 3 4 5 6 7 8 9 by blast
qed

theorem cascade_round_witness:
  "providers fallback_service = init_providers always_fails always_ok always_fails \<and>
   outcomes fallback_service ''a@b.c'' ''hi'' [EMAIL, SMS, TELEGRAM] 0 = [Some ''down'', None, Some ''down''] \<and>
   map channel (notification_attempts
     (snd (attempt_delivery fallback_service example_row [EMAIL, SMS, TELEGRAM] empty_world))) = [EMAIL, SMS] \<and>
   map success (notification_attempts
     (snd (attempt_delivery fallback_service example_row [EMAIL, SMS, TELEGRAM] empty_world))) = [False, True] \<and>
   fst (attempt_delivery fallback_service example_row [EMAIL, SMS, TELEGRAM] empty_world) =
     Inr (example_row\<lparr>status := SENT, channel_used := Some SMS\<rparr>) \<and>
   providers failing_service = init_providers always_fails always_fails always_fails \<and>
   xadd_error failing_service (xadd_calls empty_world) = None \<and>
   map channel (notification_attempts
     (snd (attempt_delivery failing_service example_row [EMAIL, SMS] empty_world))) = [EMAIL, SMS] \<and>
   map success (notification_attempts
     (snd (attempt_delivery failing_service example_row [EMAIL, SMS] empty_world))) = [False, False] \<and>
   fst (attempt_delivery failing_service example_row [EMAIL, SMS] empty_world) =
     Inr (example_row\<lparr>status := FAILED\<rparr>) \<and>
   stream (snd (attempt_delivery failing_service example_row [EMAIL, SMS] empty_world)) = [retry_record 1]"
  using cascade_round [of fallback_service always_fails always_ok always_fails example_row
      "[EMAIL, SMS, TELEGRAM]" empty_world]
    cascade_round [of failing_service always_fails always_fails always_fails example_row
      "[EMAIL, SMS]" empty_world]
  by (simp add: fallback_service_def failures_def example_defs init_providers_def Let_def)

text \<open>
  C10: a round, through \<^verbatim>\<open>_attempt_delivery\<close> or through \<^verbatim>\<open>retry_notification\<close>, leaves
  \<^verbatim>\<open>id\<close>, \<^verbatim>\<open>recipient\<close>, \<^verbatim>\<open>message\<close>, \<^verbatim>\<open>metadata\<close> and \<^verbatim>\<open>created_at\<close> of every row as they
  were, in the table and on the object it returns; rows of other notifications are
  not touched at all; and the attempts table only grows at its end.
\<close>

theorem delivery_round_frame:
  "map immutable_fields (notifications (snd (attempt_delivery svc n cs w))) =
     map immutable_fields (notifications w) \<and>
   filter (\<lambda>r. id_pk r \<noteq> id_pk n) (notifications (snd (attempt_delivery svc n cs w))) =
     filter (\<lambda>r. id_pk r \<noteq> id_pk n) (notifications w) \<and>
   take (length (notification_attempts w)) (notification_attempts (snd (attempt_delivery svc n cs w))) =
     notification_attempts w \<and>
   (case fst (attempt_delivery svc n cs w) of
      Inl e \<Rightarrow> True
    | Inr n' \<Rightarrow> immutable_fields n' = immutable_fields n) \<and>
   map immutable_fields (notifications (snd (retry_notification svc nid cs k w))) =
     map immutable_fields (notifications w) \<and>
   filter (\<lambda>r. id_pk r \<noteq> nid) (notifications (snd (retry_notification svc nid cs k w))) =
     filter (\<lambda>r. id_pk r \<noteq> nid) (notifications w) \<and>
   take (length (notification_attempts w))
     (notification_attempts (snd (retry_notification svc nid cs k w))) = notification_attempts w"
  by (simp add: attempt_delivery_tables attempt_delivery_keeps_attempts attempt_delivery_object
      retry_tables)



end
